theory Spec2Isabelle
  imports Complex_Main
begin

section \<open>Dubai real-estate price prediction: the model of \<^verbatim>\<open>app/model.py\<close>\<close>

text \<open>
  The embedding follows \<^verbatim>\<open>DubaiRealEstateModel\<close> function by function. Python floats and
  numpy float64 values are idealised as exact reals; the only rounding that remains is the
  explicit \<^verbatim>\<open>round(x, 2)\<close> of the source, which is modelled as round-half-to-even on the
  second decimal. Exceptions are values of the type \<open>error\<close>; a function that can raise
  returns \<open>error + 'a\<close>, with \<open>Inl\<close> for the exception.
\<close>

subsection \<open>Numbers\<close>

definition round_half_even :: "real \<Rightarrow> int" where
  "round_half_even x =
     (let f = \<lfloor>x\<rfloor>; d = x - of_int f
      in if d < 1 / 2 then f
         else if 1 / 2 < d then f + 1
         else if even f then f else f + 1)"

text \<open>\<^verbatim>\<open>round(x, ndigits)\<close> of Python, for a non-negative number of digits.\<close>

definition py_round :: "real \<Rightarrow> nat \<Rightarrow> real" where
  "py_round x ndigits = of_int (round_half_even (x * 10 ^ ndigits)) / 10 ^ ndigits"

subsection \<open>Exceptions\<close>

datatype error = ZeroDivisionError | IndexError | LoadError | InferenceError

subsection \<open>The request dictionary\<close>

text \<open>
  \<^verbatim>\<open>request_data\<close> is a \<^verbatim>\<open>Dict[str, Any]\<close> that the code reads with \<^verbatim>\<open>.get(key, default)\<close>
  only. Each key the code reads is a field; \<open>None\<close> is the absent key. For \<^verbatim>\<open>floor\<close> and
  \<^verbatim>\<open>building_age_years\<close> the value \<^verbatim>\<open>None\<close> that the request schema stores for an omitted
  field behaves as the absent key does (both are falsy), so \<open>None\<close> stands for either. The
  value types are those of \<^verbatim>\<open>RentPredictionRequest\<close> in \<^verbatim>\<open>schemas.py\<close>; \<^verbatim>\<open>contract_type\<close> is
  a plain string there.
\<close>

record request_data =
  property_type :: "string option"
  bedrooms :: "int option"
  bathrooms :: "int option"
  area_sqft :: "real option"
  location :: "string option"
  floor_field :: "int option"
  building_age_years :: "int option"
  has_parking :: "bool option"
  has_balcony :: "bool option"
  has_gym :: "bool option"
  has_pool :: "bool option"
  near_metro :: "bool option"
  furnished :: "bool option"
  contract_type :: "string option"

text \<open>\<^verbatim>\<open>d.get(key, default)\<close>\<close>

definition dict_get :: "'a option \<Rightarrow> 'a \<Rightarrow> 'a" where
  "dict_get v d = (case v of None \<Rightarrow> d | Some x \<Rightarrow> x)"

text \<open>\<^verbatim>\<open>int(b)\<close> for a bool, stored in a float array.\<close>

definition int_of_bool :: "bool \<Rightarrow> real" where
  "int_of_bool b = (if b then 1 else 0)"

subsection \<open>Feature encoding\<close>

definition location_map :: "(string \<times> real) list" where
  "location_map =
     [(''dubai_marina'', 1.0), (''downtown'', 1.2), (''business_bay'', 1.1),
      (''jlt'', 0.9), (''jbr'', 1.0), (''difc'', 1.3), (''palm_jumeirah'', 1.4),
      (''emirates_hills'', 1.2), (''arabian_ranches'', 0.8), (''dubai_hills'', 0.9),
      (''motor_city'', 0.7)]"

definition property_type_map :: "(string \<times> real) list" where
  "property_type_map =
     [(''apartment'', 1.0), (''villa'', 1.5), (''townhouse'', 1.2),
      (''studio'', 0.7), (''penthouse'', 1.8)]"

text \<open>\<^verbatim>\<open>_get_location_factor\<close>: \<^verbatim>\<open>location_map.get(location, 1.0)\<close>\<close>

definition get_location_factor :: "string \<Rightarrow> real" where
  "get_location_factor loc = dict_get (map_of location_map loc) 1.0"

text \<open>
  \<^verbatim>\<open>x / 50.0 if request_data.get(key) else 0.1\<close>: an absent key, \<^verbatim>\<open>None\<close> and the integer 0
  are falsy.
\<close>

definition normalized :: "int option \<Rightarrow> real" where
  "normalized v =
     (case v of None \<Rightarrow> 0.1
      | Some x \<Rightarrow> if x = 0 then 0.1 else of_int x / 50.0)"

text \<open>The array is reshaped to one row: \<^verbatim>\<open>.reshape(1, -1)\<close>.\<close>

definition encode_features :: "request_data \<Rightarrow> real list list" where
  "encode_features r =
     (let location_factor =
            dict_get (map_of location_map (dict_get (location r) ''dubai_marina'')) 1.0;
          property_factor =
            dict_get (map_of property_type_map (dict_get (property_type r) ''apartment'')) 1.0
      in [[of_int (dict_get (bedrooms r) 0),
           of_int (dict_get (bathrooms r) 0),
           dict_get (area_sqft r) 1000,
           location_factor,
           property_factor,
           normalized (floor_field r),
           normalized (building_age_years r),
           int_of_bool (dict_get (has_parking r) True),
           int_of_bool (dict_get (has_balcony r) False),
           int_of_bool (dict_get (has_gym r) False),
           int_of_bool (dict_get (has_pool r) False),
           int_of_bool (dict_get (near_metro r) False),
           int_of_bool (dict_get (furnished r) False)]])"

subsection \<open>The price model: trained artifact or rule-based fallback\<close>

text \<open>
  The body of the loop of \<^verbatim>\<open>DummyModel.predict\<close> for one row. \<^verbatim>\<open>row[3]\<close> is read first and
  raises on a row of at most three entries; the slice \<^verbatim>\<open>row[7:]\<close> never raises.
\<close>

definition dummy_row_price :: "real list \<Rightarrow> error + real" where
  "dummy_row_price row =
     (if length row \<le> 3 then Inl IndexError
      else
        let base_price = 500000;
            location_factor = row ! 3 * 1.5;
            size_factor = (row ! 2 / 1000) * 1.2;
            amenities = sum_list (drop 7 row) * 50000
        in Inr (base_price + location_factor * 200000 + size_factor * 300000 + amenities))"

fun DummyModel_predict :: "real list list \<Rightarrow> error + real list" where
  "DummyModel_predict [] = Inr []"
| "DummyModel_predict (row # X) =
     (case dummy_row_price row of
        Inl e \<Rightarrow> Inl e
      | Inr price \<Rightarrow>
          (case DummyModel_predict X of
             Inl e \<Rightarrow> Inl e
           | Inr predictions \<Rightarrow> Inr (price # predictions)))"

text \<open>
  \<^verbatim>\<open>self.model\<close> is either the object that \<^verbatim>\<open>joblib.load\<close> returned, of which the code uses
  \<^verbatim>\<open>predict\<close> only and which is opaque here, or the \<^verbatim>\<open>DummyModel\<close>.
\<close>

datatype price_model =
    TrainedRegressor "real list list \<Rightarrow> error + real list"
  | DummyModel

definition model_predict :: "price_model \<Rightarrow> real list list \<Rightarrow> error + real list" where
  "model_predict m X =
     (case m of TrainedRegressor f \<Rightarrow> f X | DummyModel \<Rightarrow> DummyModel_predict X)"

text \<open>\<^verbatim>\<open>xs[0]\<close>\<close>

definition first_elem :: "'a list \<Rightarrow> error + 'a" where
  "first_elem xs = (case xs of [] \<Rightarrow> Inl IndexError | x # _ \<Rightarrow> Inr x)"

subsection \<open>Loading the model\<close>


record model_object =
  self_model_path :: string
  self_model :: price_model
  self_model_version :: string





subsection \<open>Predictions\<close>

text \<open>
  The result dictionary. A sale result has no \<^verbatim>\<open>rental_type\<close> key (\<open>None\<close>); a rent result
  is the sale result with three keys overwritten or added.
\<close>

record prediction =
  predicted_price_aed :: real
  price_per_sqft_aed :: real
  location_premium :: real
  confidence_score :: real
  model_version :: string
  prediction_timestamp :: string
  rental_type :: "string option"

text \<open>
  \<^verbatim>\<open>predict_sale_price\<close>. The argument \<open>now\<close> is \<^verbatim>\<open>datetime.utcnow().isoformat()\<close> at the
  time of the call.
\<close>

definition predict_sale_price :: "model_object \<Rightarrow> string \<Rightarrow> request_data \<Rightarrow> error + prediction" where
  "predict_sale_price self now r =
     (let features = encode_features r
      in case model_predict (self_model self) features of
           Inl e \<Rightarrow> Inl e
         | Inr predictions \<Rightarrow>
             (case first_elem predictions of
                Inl e \<Rightarrow> Inl e
              | Inr p \<Rightarrow>
                  let area = dict_get (area_sqft r) 1000;
                      price_per_sqft = (if area > 0 then p / area else 0);
                      location_factor =
                        get_location_factor (dict_get (location r) ''dubai_marina'')
                  in Inr \<lparr>predicted_price_aed = py_round p 2,
                          price_per_sqft_aed = py_round price_per_sqft 2,
                          location_premium = py_round (location_factor - 1.0) 2,
                          confidence_score = 0.85,
                          model_version = self_model_version self,
                          prediction_timestamp = now @ ''Z'',
                          rental_type = None\<rparr>))"

text \<open>\<^verbatim>\<open>x / y\<close> on Python floats raises on a zero divisor.\<close>

definition py_div :: "real \<Rightarrow> real \<Rightarrow> error + real" where
  "py_div x y = (if y = 0 then Inl ZeroDivisionError else Inr (x / y))"

definition predict_rent_price :: "model_object \<Rightarrow> string \<Rightarrow> request_data \<Rightarrow> error + prediction" where
  "predict_rent_price self now r =
     (case predict_sale_price self now r of
        Inl e \<Rightarrow> Inl e
      | Inr sale_prediction \<Rightarrow>
          let annual_rent = predicted_price_aed sale_prediction * 0.08;
              contract = dict_get (contract_type r) ''annual''
          in if contract = ''monthly'' then
               let monthly_rent = annual_rent / 12
               in (case py_div monthly_rent (dict_get (area_sqft r) 1000) of
                     Inl e \<Rightarrow> Inl e
                   | Inr q \<Rightarrow>
                       Inr (sale_prediction
                            \<lparr>predicted_price_aed := py_round monthly_rent 2,
                             price_per_sqft_aed := py_round q 2,
                             rental_type := Some ''monthly''\<rparr>))
             else
               (case py_div annual_rent (dict_get (area_sqft r) 1000) of
                  Inl e \<Rightarrow> Inl e
                | Inr q \<Rightarrow>
                    Inr (sale_prediction
                         \<lparr>predicted_price_aed := py_round annual_rent 2,
                          price_per_sqft_aed := py_round q 2,
                          rental_type := Some ''annual''\<rparr>)))"

subsection \<open>The example request of the specification\<close>

definition scenario_request :: request_data where
  "scenario_request =
     \<lparr>property_type = Some ''apartment'', bedrooms = Some 2, bathrooms = Some 2,
      area_sqft = Some 1200, location = Some ''dubai_marina'', floor_field = Some 10,
      building_age_years = Some 5, has_parking = Some True, has_balcony = Some False,
      has_gym = Some False, has_pool = Some False, near_metro = Some False,
      furnished = Some False, contract_type = None\<rparr>"

definition fallback_object :: model_object where
  "fallback_object =
     \<lparr>self_model_path = ''/app/models/dubai_realestate_model.pkl'',
      self_model = DummyModel, self_model_version = ''v1.0.0''\<rparr>"

definition scenario_sale :: prediction where
  "scenario_sale =
     \<lparr>predicted_price_aed = 1282000, price_per_sqft_aed = 106833 / 100,
      location_premium = 0, confidence_score = 0.85, model_version = ''v1.0.0'',
      prediction_timestamp = ''2024-01-01T00:00:00Z'', rental_type = None\<rparr>"




section \<open>Shared lemmas\<close>

subsection \<open>Rounding to two decimals\<close>

lemma round_half_even_error: "\<bar>of_int (round_half_even x) - x\<bar> \<le> 1 / 2"
proof -
  have lo: "of_int \<lfloor>x\<rfloor> \<le> x" by simp
  have hi: "x < of_int \<lfloor>x\<rfloor> + 1" by simp
  show ?thesis
    using lo hi unfolding round_half_even_def Let_def
    by (auto simp: abs_le_iff)
qed

lemma round_half_even_unique:
  assumes "of_int n - 1 / 2 < x" and "x < of_int n + 1 / 2"
  shows "round_half_even x = n"
proof -
  have e: "\<bar>of_int (round_half_even x) - x\<bar> \<le> 1 / 2" by (rule round_half_even_error)
  have "\<bar>(of_int (round_half_even x) :: real) - of_int n\<bar> < 1"
    using e assms by linarith
  then have "\<bar>round_half_even x - n\<bar> < 1"
    by (metis of_int_diff of_int_abs of_int_less_iff of_int_1)
  then show ?thesis by simp
qed

lemma py_round2_error: "\<bar>py_round x 2 - x\<bar> \<le> 1 / 200"
proof -
  have "\<bar>of_int (round_half_even (x * 100)) - x * 100\<bar> \<le> 1 / 2"
    by (rule round_half_even_error)
  then show ?thesis
    by (simp add: py_round_def abs_le_iff field_simps)
qed

lemma py_round2_unique:
  assumes "of_int n - 1 / 2 < x * 100" and "x * 100 < of_int n + 1 / 2"
  shows "py_round x 2 = of_int n / 100"
  using round_half_even_unique [OF assms] by (simp add: py_round_def)

lemma py_round2_zero: "py_round 0 2 = 0"
  using py_round2_unique [of 0 0] by simp

subsection \<open>Sale and rent results\<close>

lemma sale_result_shape:
  assumes "predict_sale_price self now r = Inr s"
  shows "\<exists>p. s =
    \<lparr>predicted_price_aed = py_round p 2,
     price_per_sqft_aed =
       py_round (if 0 < dict_get (area_sqft r) 1000 then p / dict_get (area_sqft r) 1000 else 0) 2,
     location_premium =
       py_round (get_location_factor (dict_get (location r) ''dubai_marina'') - 1.0) 2,
     confidence_score = 0.85,
     model_version = self_model_version self,
     prediction_timestamp = now @ ''Z'',
     rental_type = None\<rparr>"
  using assms unfolding predict_sale_price_def Let_def
  by (auto split: sum.splits)

lemma rent_of_sale:
  assumes "predict_sale_price self now r = Inr s"
    and "dict_get (area_sqft r) 1000 \<noteq> 0"
  shows "predict_rent_price self now r =
    Inr (s\<lparr>predicted_price_aed :=
              py_round (if dict_get (contract_type r) ''annual'' = ''monthly''
                        then predicted_price_aed s * 0.08 / 12
                        else predicted_price_aed s * 0.08) 2,
            price_per_sqft_aed :=
              py_round ((if dict_get (contract_type r) ''annual'' = ''monthly''
                         then predicted_price_aed s * 0.08 / 12
                         else predicted_price_aed s * 0.08) / dict_get (area_sqft r) 1000) 2,
            rental_type :=
              Some (if dict_get (contract_type r) ''annual'' = ''monthly''
                    then ''monthly'' else ''annual'')\<rparr>)"
  using assms unfolding predict_rent_price_def Let_def py_div_def
  by simp

lemma rent_zero_area:
  assumes "predict_sale_price self now r = Inr s"
    and "dict_get (area_sqft r) 1000 = 0"
  shows "predict_rent_price self now r = Inl ZeroDivisionError"
  using assms unfolding predict_rent_price_def Let_def py_div_def
  by simp

lemma encode_ignores_contract_type:
  "encode_features (r\<lparr>contract_type := c\<rparr>) = encode_features r"
  by (simp add: encode_features_def)

lemma sale_ignores_contract_type:
  "predict_sale_price self now (r\<lparr>contract_type := c\<rparr>) = predict_sale_price self now r"
  unfolding predict_sale_price_def encode_ignores_contract_type Let_def
  by (simp split: sum.splits)


lemma dummy_predict_encode:
  "model_predict DummyModel (encode_features r) =
     Inr [500000
          + get_location_factor (dict_get (location r) ''dubai_marina'') * 1.5 * 200000
          + (dict_get (area_sqft r) 1000 / 1000) * 1.2 * 300000
          + 50000 * (int_of_bool (dict_get (has_parking r) True)
                     + int_of_bool (dict_get (has_balcony r) False)
                     + int_of_bool (dict_get (has_gym r) False)
                     + int_of_bool (dict_get (has_pool r) False)
                     + int_of_bool (dict_get (near_metro r) False)
                     + int_of_bool (dict_get (furnished r) False))]"
  unfolding model_predict_def encode_features_def Let_def get_location_factor_def
  by (simp add: dummy_row_price_def)



subsection \<open>The example request, evaluated\<close>

lemma scenario_sale_eval:
  "predict_sale_price fallback_object ''2024-01-01T00:00:00'' scenario_request = Inr scenario_sale"
proof -
  have p: "model_predict DummyModel (encode_features scenario_request) = Inr [1282000]"
    unfolding dummy_predict_encode
    by (simp add: scenario_request_def dict_get_def get_location_factor_def location_map_def
        int_of_bool_def)
  have r1: "py_round 1282000 2 = 1282000"
    using py_round2_unique [of 128200000 1282000] by simp
  have r2: "py_round (3205 / 3) 2 = 106833 / 100"
    using py_round2_unique [of 106833 "3205 / 3"] by simp
  have a: "dict_get (area_sqft scenario_request) 1000 = 1200"
    by (simp add: scenario_request_def dict_get_def)
  have l: "get_location_factor (dict_get (location scenario_request) ''dubai_marina'') = 1"
    by (simp add: scenario_request_def dict_get_def get_location_factor_def location_map_def)
  have m: "self_model fallback_object = DummyModel"
    and v: "self_model_version fallback_object = ''v1.0.0''"
    by (simp_all add: fallback_object_def)
  show ?thesis
    unfolding predict_sale_price_def Let_def m p
    by (simp add: first_elem_def a l v r1 r2 py_round2_zero scenario_sale_def)
qed


lemma scenario_area: "dict_get (area_sqft scenario_request) 1000 = 1200"
  by (simp add: scenario_request_def dict_get_def)

lemma scenario_zero_area_sale:
  "predict_sale_price fallback_object ''2024-01-01T00:00:00'' (scenario_request\<lparr>area_sqft := Some 0\<rparr>)
     = Inr (scenario_sale\<lparr>predicted_price_aed := 850000, price_per_sqft_aed := 0\<rparr>)"
proof -
  let ?r = "scenario_request\<lparr>area_sqft := Some 0\<rparr>"
  have p: "model_predict DummyModel (encode_features ?r) = Inr [850000]"
    unfolding dummy_predict_encode
    by (simp add: scenario_request_def dict_get_def get_location_factor_def location_map_def
        int_of_bool_def)
  have r1: "py_round 850000 2 = 850000"
    using py_round2_unique [of 85000000 850000] by simp
  have a: "dict_get (area_sqft ?r) 1000 = 0"
    by (simp add: dict_get_def)
  have l: "get_location_factor (dict_get (location ?r) ''dubai_marina'') = 1"
    by (simp add: scenario_request_def dict_get_def get_location_factor_def location_map_def)
  have m: "self_model fallback_object = DummyModel"
    and v: "self_model_version fallback_object = ''v1.0.0''"
    by (simp_all add: fallback_object_def)
  show ?thesis
    unfolding predict_sale_price_def Let_def m p a l
    by (simp add: first_elem_def v r1 py_round2_zero scenario_sale_def)
qed

subsection \<open>Arithmetic of the rent conversion\<close>


subsection \<open>Loading\<close>



section \<open>The claims\<close>

subsection \<open>C1: price per square foot against price\<close>




subsection \<open>C2: the fallback price\<close>


subsection \<open>C3: falling back when the artifact cannot be loaded\<close>




subsection \<open>C4: floor and building age of zero\<close>



subsection \<open>C5: annual rent is eight percent of the sale price\<close>

text \<open>
  C5: when the sale prediction for a request succeeds, its area is not zero and its contract
  type is \<^verbatim>\<open>annual\<close>, the rent prediction returns a result whose price is the sale result's
  price times 0.08, rounded to two decimals; it differs from that product by at most 0.005.
\<close>

theorem annual_rent_is_eight_percent:
  assumes "predict_sale_price self now r = Inr s"
    and "dict_get (area_sqft r) 1000 \<noteq> 0"
    and "contract_type r = Some ''annual''"
  shows "\<exists>t. predict_rent_price self now r = Inr t
           \<and> predicted_price_aed t = py_round (predicted_price_aed s * 0.08) 2
           \<and> \<bar>predicted_price_aed t - predicted_price_aed s * 0.08\<bar> \<le> 1 / 200"
proof -
  have c: "dict_get (contract_type r) ''annual'' \<noteq> ''monthly''"
    using assms(3) by (simp add: dict_get_def)
  show ?thesis
    using py_round2_error [of "predicted_price_aed s * 0.08"]
    by (simp add: rent_of_sale [OF assms(1,2)] c)
qed

theorem annual_rent_is_eight_percent_witness:
  "predict_sale_price fallback_object ''2024-01-01T00:00:00''
     (scenario_request\<lparr>contract_type := Some ''annual''\<rparr>) = Inr scenario_sale
   \<and> dict_get (area_sqft (scenario_request\<lparr>contract_type := Some ''annual''\<rparr>)) 1000 \<noteq> 0
   \<and> contract_type (scenario_request\<lparr>contract_type := Some ''annual''\<rparr>) = Some ''annual''
   \<and> predict_rent_price fallback_object ''2024-01-01T00:00:00''
        (scenario_request\<lparr>contract_type := Some ''annual''\<rparr>)
       = Inr (scenario_sale\<lparr>predicted_price_aed := 102560, price_per_sqft_aed := 85.47,
                            rental_type := Some ''annual''\<rparr>)"
proof -
  let ?r = "scenario_request\<lparr>contract_type := Some ''annual''\<rparr>"
  have h1: "predict_sale_price fallback_object ''2024-01-01T00:00:00'' ?r = Inr scenario_sale"
    unfolding sale_ignores_contract_type by (rule scenario_sale_eval)
  have a: "dict_get (area_sqft ?r) 1000 = 1200"
    using scenario_area by simp
  have h2: "dict_get (area_sqft ?r) 1000 \<noteq> 0"
    using scenario_area by simp
  have h3: "contract_type ?r = Some ''annual''"
    by simp
  have c: "dict_get (contract_type ?r) ''annual'' = ''annual''"
    by (simp add: dict_get_def)
  have r1: "py_round 102560 2 = 102560"
    using py_round2_unique [of 10256000 102560] by simp
  have r2: "py_round (1282 / 15) 2 = 8547 / 100"
    using py_round2_unique [of 8547 "1282 / 15"] by simp
  have "predict_rent_price fallback_object ''2024-01-01T00:00:00'' ?r
       = Inr (scenario_sale\<lparr>predicted_price_aed := 102560, price_per_sqft_aed := 85.47,
                            rental_type := Some ''annual''\<rparr>)"
    unfolding rent_of_sale [OF h1 h2] c a
    by (simp add: scenario_sale_def r1 r2)
  then show ?thesis
    using h1 h2 h3 annual_rent_is_eight_percent [OF h1 h2 h3] by blast
qed

subsection \<open>C6: monthly rent is a twelfth of the annual rent\<close>



subsection \<open>C7: thirteen features in a fixed order\<close>



subsection \<open>C8: the rent result keeps the sale result's other fields\<close>

text \<open>
  C8: when the sale prediction for a request succeeds and its area is not zero, the rent
  prediction returns the sale result with \<^verbatim>\<open>predicted_price_aed\<close> and \<^verbatim>\<open>price_per_sqft_aed\<close>
  replaced and \<^verbatim>\<open>rental_type\<close> added (the sale result has none); the location premium, the
  confidence score, the model version and the timestamp are those of the sale result.
\<close>

theorem rent_keeps_sale_fields:
  assumes "predict_sale_price self now r = Inr s"
    and "dict_get (area_sqft r) 1000 \<noteq> 0"
  shows "\<exists>t. predict_rent_price self now r = Inr t
           \<and> location_premium t = location_premium s
           \<and> confidence_score t = confidence_score s
           \<and> model_version t = model_version s
           \<and> prediction_timestamp t = prediction_timestamp s
           \<and> rental_type s = None
           \<and> t = s\<lparr>predicted_price_aed := predicted_price_aed t,
                    price_per_sqft_aed := price_per_sqft_aed t,
                    rental_type := Some (if dict_get (contract_type r) ''annual'' = ''monthly''
                                         then ''monthly'' else ''annual'')\<rparr>"
proof -
  have n: "rental_type s = None"
    using sale_result_shape [OF assms(1)] by auto
  show ?thesis
    unfolding rent_of_sale [OF assms] using n by simp
qed

theorem rent_keeps_sale_fields_witness:
  "predict_sale_price fallback_object ''2024-01-01T00:00:00'' scenario_request = Inr scenario_sale
   \<and> dict_get (area_sqft scenario_request) 1000 \<noteq> 0
   \<and> (\<exists>t. predict_rent_price fallback_object ''2024-01-01T00:00:00'' scenario_request = Inr t
           \<and> location_premium t = 0
           \<and> confidence_score t = 0.85
           \<and> model_version t = ''v1.0.0''
           \<and> prediction_timestamp t = ''2024-01-01T00:00:00Z''
           \<and> rental_type t = Some ''annual'')"
proof -
  have h1: "predict_sale_price fallback_object ''2024-01-01T00:00:00'' scenario_request
              = Inr scenario_sale"
    by (rule scenario_sale_eval)
  have h2: "dict_get (area_sqft scenario_request) 1000 \<noteq> 0"
    by (simp add: scenario_area)
  have c: "dict_get (contract_type scenario_request) ''annual'' = ''annual''"
    by (simp add: scenario_request_def dict_get_def)
  from rent_keeps_sale_fields [OF h1 h2] obtain t where
    "predict_rent_price fallback_object ''2024-01-01T00:00:00'' scenario_request = Inr t"
    "location_premium t = location_premium scenario_sale"
    "confidence_score t = confidence_score scenario_sale"
    "model_version t = model_version scenario_sale"
    "prediction_timestamp t = prediction_timestamp scenario_sale"
    "t = scenario_sale\<lparr>predicted_price_aed := predicted_price_aed t,
          price_per_sqft_aed := price_per_sqft_aed t,
          rental_type := Some (if dict_get (contract_type scenario_request) ''annual'' = ''monthly''
                               then ''monthly'' else ''annual'')\<rparr>"
    by blast
  then have "predict_rent_price fallback_object ''2024-01-01T00:00:00'' scenario_request = Inr t
           \<and> location_premium t = 0
           \<and> confidence_score t = 0.85
           \<and> model_version t = ''v1.0.0''
           \<and> prediction_timestamp t = ''2024-01-01T00:00:00Z''
           \<and> rental_type t = Some ''annual''"
    unfolding c by (simp add: scenario_sale_def) (metis prediction.select_convs(7))
  then show ?thesis using h1 h2 by blast
qed

subsection \<open>C9: the division guard is on the sale path only\<close>

text \<open>
  C9: for a request with \<^verbatim>\<open>area_sqft = 0\<close> on which the sale prediction succeeds, the sale
  result has a price per square foot of 0, and the rent prediction raises
  \<^verbatim>\<open>ZeroDivisionError\<close>; for a positive area (1000 when the key is absent) the rent
  prediction returns a result whenever the sale prediction does.
\<close>

theorem rent_division_unguarded:
  "((area_sqft r = Some 0 \<and> predict_sale_price self now r = Inr s)
      \<longrightarrow> price_per_sqft_aed s = 0 \<and> predict_rent_price self now r = Inl ZeroDivisionError)
   \<and> ((0 < dict_get (area_sqft r) 1000 \<and> predict_sale_price self now r = Inr s)
      \<longrightarrow> (\<exists>t. predict_rent_price self now r = Inr t))
   \<and> (area_sqft r = None \<longrightarrow> dict_get (area_sqft r) 1000 = 1000)"
proof -
  have z: "price_per_sqft_aed s = 0 \<and> predict_rent_price self now r = Inl ZeroDivisionError"
    if a: "area_sqft r = Some 0" and s: "predict_sale_price self now r = Inr s"
  proof -
    have a0: "dict_get (area_sqft r) 1000 = 0"
      using a by (simp add: dict_get_def)
    have "price_per_sqft_aed s = 0"
      using sale_result_shape [OF s] by (auto simp: a0 py_round2_zero)
    then show ?thesis
      using rent_zero_area [OF s a0] by simp
  qed
  have p: "\<exists>t. predict_rent_price self now r = Inr t"
    if a: "0 < dict_get (area_sqft r) 1000" and s: "predict_sale_price self now r = Inr s"
  proof -
    have nz: "dict_get (area_sqft r) 1000 \<noteq> 0" using a by simp
    show ?thesis by (simp add: rent_of_sale [OF s nz])
  qed
  have d: "dict_get (area_sqft r) 1000 = 1000" if "area_sqft r = None"
    using that by (simp add: dict_get_def)
  show ?thesis using z p d by blast
qed

theorem rent_division_unguarded_witness:
  "area_sqft (scenario_request\<lparr>area_sqft := Some 0\<rparr>) = Some 0
   \<and> predict_sale_price fallback_object ''2024-01-01T00:00:00''
        (scenario_request\<lparr>area_sqft := Some 0\<rparr>)
       = Inr (scenario_sale\<lparr>predicted_price_aed := 850000, price_per_sqft_aed := 0\<rparr>)
   \<and> price_per_sqft_aed (scenario_sale\<lparr>predicted_price_aed := 850000, price_per_sqft_aed := 0\<rparr>) = 0
   \<and> predict_rent_price fallback_object ''2024-01-01T00:00:00''
        (scenario_request\<lparr>area_sqft := Some 0\<rparr>) = Inl ZeroDivisionError
   \<and> 0 < dict_get (area_sqft scenario_request) 1000
   \<and> predict_sale_price fallback_object ''2024-01-01T00:00:00'' scenario_request
       = Inr scenario_sale
   \<and> predict_rent_price fallback_object ''2024-01-01T00:00:00'' scenario_request
       \<noteq> Inl ZeroDivisionError
   \<and> area_sqft (scenario_request\<lparr>area_sqft := None\<rparr>) = None
   \<and> dict_get (area_sqft (scenario_request\<lparr>area_sqft := None\<rparr>)) 1000 = 1000"
proof -
  let ?z = "scenario_request\<lparr>area_sqft := Some 0\<rparr>"
  let ?s0 = "scenario_sale\<lparr>predicted_price_aed := 850000, price_per_sqft_aed := 0\<rparr>"
  have z1: "area_sqft ?z = Some 0" by simp
  have z2: "predict_sale_price fallback_object ''2024-01-01T00:00:00'' ?z = Inr ?s0"
    by (rule scenario_zero_area_sale)
  have p1: "0 < dict_get (area_sqft scenario_request) 1000"
    by (simp add: scenario_area)
  have p2: "predict_sale_price fallback_object ''2024-01-01T00:00:00'' scenario_request
              = Inr scenario_sale"
    by (rule scenario_sale_eval)
  have n1: "area_sqft (scenario_request\<lparr>area_sqft := None\<rparr>) = None" by simp
  show ?thesis
    using z1 z2 p1 p2 n1
      rent_division_unguarded [of ?z fallback_object "''2024-01-01T00:00:00''" ?s0]
      rent_division_unguarded [of scenario_request fallback_object "''2024-01-01T00:00:00''"
        scenario_sale]
      rent_division_unguarded [of "scenario_request\<lparr>area_sqft := None\<rparr>"]
    by auto
qed

subsection \<open>C10: any contract type other than monthly is annual\<close>

text \<open>
  C10: for a contract type that is not exactly the string \<^verbatim>\<open>monthly\<close> (absent, misspelled or
  invalid: the field is an unconstrained string), \<^verbatim>\<open>predict_rent_price\<close> does what it does
  for \<^verbatim>\<open>annual\<close>: every result it returns has the rental type \<^verbatim>\<open>annual\<close>, and it returns a
  result whenever the sale prediction succeeds and the area is not zero.
\<close>

theorem contract_type_defaults_to_annual:
  assumes "contract_type r \<noteq> Some ''monthly''"
  shows "predict_rent_price self now r
           = predict_rent_price self now (r\<lparr>contract_type := Some ''annual''\<rparr>)
         \<and> (\<forall>t. predict_rent_price self now r = Inr t \<longrightarrow> rental_type t = Some ''annual'')
         \<and> (\<forall>s. predict_sale_price self now r = Inr s \<and> dict_get (area_sqft r) 1000 \<noteq> 0
                \<longrightarrow> (\<exists>t. predict_rent_price self now r = Inr t))"
proof -
  have c: "dict_get (contract_type r) ''annual'' \<noteq> ''monthly''"
    using assms by (cases "contract_type r") (simp_all add: dict_get_def)
  have c': "dict_get (contract_type (r\<lparr>contract_type := Some ''annual''\<rparr>)) ''annual'' \<noteq> ''monthly''"
    by (simp add: dict_get_def)
  have e: "predict_rent_price self now r
           = predict_rent_price self now (r\<lparr>contract_type := Some ''annual''\<rparr>)"
    unfolding predict_rent_price_def sale_ignores_contract_type Let_def
    using c c' by (simp split: sum.splits)
  have t: "rental_type t = Some ''annual''" if "predict_rent_price self now r = Inr t" for t
    using that c unfolding predict_rent_price_def Let_def
    by (auto split: sum.splits)
  have x: "\<exists>t. predict_rent_price self now r = Inr t"
    if "predict_sale_price self now r = Inr s \<and> dict_get (area_sqft r) 1000 \<noteq> 0" for s
    using that by (simp add: rent_of_sale)
  show ?thesis using e t x by blast
qed

theorem contract_type_defaults_to_annual_witness:
  "contract_type (scenario_request\<lparr>contract_type := Some ''Monthly''\<rparr>) \<noteq> Some ''monthly''
   \<and> predict_rent_price fallback_object ''2024-01-01T00:00:00''
        (scenario_request\<lparr>contract_type := Some ''Monthly''\<rparr>)
       = predict_rent_price fallback_object ''2024-01-01T00:00:00''
           (scenario_request\<lparr>contract_type := Some ''annual''\<rparr>)
   \<and> contract_type (scenario_request\<lparr>contract_type := Some ''weekly''\<rparr>) \<noteq> Some ''monthly''
   \<and> predict_rent_price fallback_object ''2024-01-01T00:00:00''
        (scenario_request\<lparr>contract_type := Some ''weekly''\<rparr>)
       = predict_rent_price fallback_object ''2024-01-01T00:00:00''
           (scenario_request\<lparr>contract_type := Some ''annual''\<rparr>)
   \<and> contract_type (scenario_request\<lparr>contract_type := None\<rparr>) \<noteq> Some ''monthly''
   \<and> predict_rent_price fallback_object ''2024-01-01T00:00:00''
        (scenario_request\<lparr>contract_type := None\<rparr>)
       = predict_rent_price fallback_object ''2024-01-01T00:00:00''
           (scenario_request\<lparr>contract_type := Some ''annual''\<rparr>)"
proof -
  have h1: "contract_type (scenario_request\<lparr>contract_type := Some ''Monthly''\<rparr>) \<noteq> Some ''monthly''"
    by simp
  have h2: "contract_type (scenario_request\<lparr>contract_type := Some ''weekly''\<rparr>) \<noteq> Some ''monthly''"
    by simp
  have h3: "contract_type (scenario_request\<lparr>contract_type := None\<rparr>) \<noteq> Some ''monthly''"
    by simp
  show ?thesis
    using h1 h2 h3
      contract_type_defaults_to_annual [OF h1, of fallback_object "''2024-01-01T00:00:00''"]
      contract_type_defaults_to_annual [OF h2, of fallback_object "''2024-01-01T00:00:00''"]
      contract_type_defaults_to_annual [OF h3, of fallback_object "''2024-01-01T00:00:00''"]
    by simp
qed

end
